theory Spec2Isabelle
  imports Complex_Main "HOL-Library.Word"
begin

section \<open>Data model of detect.py\<close>

text \<open>
  The module \<^verbatim>\<open>detect.py\<close> runs a camera loop (\<^verbatim>\<open>run\<close>) that keeps the last frames in
  \<^verbatim>\<open>img_list\<close>, compares two of them with \<^verbatim>\<open>get_mse\<close> and calls the detector when the
  score is not 0. Exceptions are values: a function that can raise returns
  \<open>error + 'a\<close>, with \<open>Inl\<close> for the exception.
\<close>

datatype error = NameError | UnboundLocalError | ValueError | Cv2Error | ZeroDivisionError

text \<open>
  A numpy array of dtype uint8: its \<^verbatim>\<open>shape\<close> tuple and its elements in row-major order.
\<close>

record ndarray =
  shape :: "nat list"
  pixels :: "8 word list"

text \<open>
  A float64 as numpy produces it from a true division: a finite value (rounding is not
  modelled, the value is the exact quotient), \<^verbatim>\<open>inf\<close> or \<^verbatim>\<open>nan\<close>.
\<close>

datatype npfloat = Fl real | PInf | NaN

subsection \<open>The module's global names\<close>

text \<open>
  Python resolves a global name when the statement runs. The names the module binds at
  top level are those of its \<^verbatim>\<open>import\<close> statements (lines 1 to 11) and of its three
  \<^verbatim>\<open>def\<close>s. No statement binds \<^verbatim>\<open>np\<close>.
\<close>

definition module_globals :: "string list" where
  "module_globals =
     [''argparse'', ''sys'', ''time'', ''cv2'', ''core'', ''processor'', ''vision'',
      ''utils'', ''Picamera2'', ''run'', ''main'', ''get_mse'']"

definition load_global :: "string \<Rightarrow> error + unit" where
  "load_global n = (if n \<in> set module_globals then Inr () else Inl NameError)"

subsection \<open>Library operations on arrays\<close>

text \<open>
  \<^verbatim>\<open>h, w = img1.shape\<close>: unpacking a tuple into two names raises ValueError unless the
  tuple has exactly two components.
\<close>

fun unpack2 :: "nat list \<Rightarrow> error + nat \<times> nat" where
  "unpack2 [h, w] = Inr (h, w)"
| "unpack2 _ = Inl ValueError"

text \<open>
  \<^verbatim>\<open>cv2.subtract\<close> on uint8 arrays is the saturating difference, element by element:
  a negative difference is clamped to 0. Operands of different geometry are rejected with
  \<^verbatim>\<open>cv2.error\<close> (OpenCV's array-with-scalar form, where one operand has a single element
  per channel, is not modelled).
\<close>

definition saturate_sub :: "8 word \<Rightarrow> 8 word \<Rightarrow> 8 word" where
  "saturate_sub a b = (if b \<le> a then a - b else 0)"

definition cv2_subtract :: "ndarray \<Rightarrow> ndarray \<Rightarrow> error + ndarray" where
  "cv2_subtract a b =
     (if shape a = shape b
      then Inr \<lparr>shape = shape a, pixels = map2 saturate_sub (pixels a) (pixels b)\<rparr>
      else Inl Cv2Error)"

text \<open>
  \<^verbatim>\<open>diff**2\<close> on a uint8 array stays uint8: each square wraps modulo 256.
  \<^verbatim>\<open>np.sum\<close> of a uint8 array accumulates in the platform's unsigned integer (64 bits).
\<close>

definition np_square :: "ndarray \<Rightarrow> ndarray" where
  "np_square d = d\<lparr>pixels := map (\<lambda>x. x * x) (pixels d)\<rparr>"

definition np_sum :: "ndarray \<Rightarrow> 64 word" where
  "np_sum d = sum_list (map ucast (pixels d))"

text \<open>
  \<^verbatim>\<open>err/(float(h*w))\<close>: a numpy scalar divided by a Python float. Division by 0.0 does
  not raise in numpy: it gives \<^verbatim>\<open>nan\<close> for 0/0 and \<^verbatim>\<open>inf\<close> otherwise.
\<close>

definition np_true_divide :: "64 word \<Rightarrow> nat \<Rightarrow> npfloat" where
  "np_true_divide err n =
     (if n = 0 then (if err = 0 then NaN else PInf)
      else Fl (real (unat err) / real n))"

section \<open>get_mse\<close>

text \<open>
  \<^verbatim>\<open>
  def get_mse(img1, img2):
    h, w = img1.shape
    diff = cv2.subtract(img1, img2)
    err = np.sum(diff**2)
    mse = err/(float(h*w))
    return mse
  \<close>
  The statements run in order; in \<^verbatim>\<open>np.sum(diff**2)\<close> the callable \<^verbatim>\<open>np.sum\<close> is
  evaluated before its argument, so the lookup of \<^verbatim>\<open>np\<close> comes before the square.
\<close>

definition get_mse :: "ndarray \<Rightarrow> ndarray \<Rightarrow> error + npfloat" where
  "get_mse img1 img2 =
     (case unpack2 (shape img1) of
        Inl e \<Rightarrow> Inl e
      | Inr (h, w) \<Rightarrow>
          (case load_global ''cv2'' of
             Inl e \<Rightarrow> Inl e
           | Inr _ \<Rightarrow>
               (case cv2_subtract img1 img2 of
                  Inl e \<Rightarrow> Inl e
                | Inr diff \<Rightarrow>
                    (case load_global ''np'' of
                       Inl e \<Rightarrow> Inl e
                     | Inr _ \<Rightarrow>
                         (let err = np_sum (np_square diff);
                              mse = np_true_divide err (h * w)
                          in Inr mse)))))"

section \<open>The loop of run\<close>

text \<open>
  The locals of \<^verbatim>\<open>run\<close> that live across iterations. \<^verbatim>\<open>mse\<close> is assigned only inside
  the loop, under \<^verbatim>\<open>if (len(img_list)>1)\<close>: until then the local is unbound (\<open>None\<close>).
  \<open>sink\<close> records, in order, the calls of \<^verbatim>\<open>detector.detect\<close> and of
  \<^verbatim>\<open>utils.print_data\<close>; the detection result is opaque (\<open>'r\<close>).
\<close>

datatype 'r event = Detect ndarray | Print 'r real

record 'r run_state =
  counter :: int
  fps :: real
  start_time :: real
  img_list :: "ndarray list"
  mse :: "npfloat option"
  sink :: "'r event list"

text \<open>
  Lines 28, 29 and 58: \<^verbatim>\<open>counter, fps = 0, 0\<close>, \<^verbatim>\<open>start_time = time.time()\<close>,
  \<^verbatim>\<open>img_list = []\<close>.
\<close>

definition init_state :: "real \<Rightarrow> 'r run_state" where
  "init_state t0 =
     \<lparr>counter = 0, fps = 0, start_time = t0, img_list = [], mse = None, sink = []\<rparr>"

text \<open>
  What one iteration reads from outside: the camera buffer and the two readings of
  \<^verbatim>\<open>time.time()\<close> on lines 86 and 88 (read only when those lines run).
\<close>

record cycle_input =
  buffer :: "8 word list"
  clock_end :: real
  clock_start :: real

text \<open>
  Lines 61 to 70. \<^verbatim>\<open>buffer[:stride * 240].reshape((240, stride))\<close> raises ValueError when
  the slice does not hold \<open>240 * stride\<close> bytes. \<^verbatim>\<open>cv2.cvtColor(image, cv2.COLOR_GRAY2RGB)\<close>
  repeats each grey value in three channels and rejects an empty image.
\<close>

definition reshape2 :: "8 word list \<Rightarrow> nat \<Rightarrow> nat \<Rightarrow> error + ndarray" where
  "reshape2 xs h w =
     (if length xs = h * w then Inr \<lparr>shape = [h, w], pixels = xs\<rparr> else Inl ValueError)"

definition cvtColor_GRAY2RGB :: "ndarray \<Rightarrow> error + ndarray" where
  "cvtColor_GRAY2RGB img =
     (case unpack2 (shape img) of
        Inl _ \<Rightarrow> Inl Cv2Error
      | Inr (h, w) \<Rightarrow>
          if h * w = 0 then Inl Cv2Error
          else Inr \<lparr>shape = [h, w, 3], pixels = concat (map (\<lambda>p. [p, p, p]) (pixels img))\<rparr>)"

definition lowres_height :: nat where
  "lowres_height = 240"

text \<open>
  Lines 72 to 75:
  \<^verbatim>\<open>
    img_list.append(rgb_image)
    if (len(img_list)>1):
      mse = get_mse(img_list[0], img_list[1])
      img_list.pop(0)
  \<close>
  An exception leaves the locals as they are when it is raised: \<open>Inl (e, s)\<close> carries them.
\<close>

definition change_gate :: "'r run_state \<Rightarrow> ndarray \<Rightarrow> (error \<times> 'r run_state) + 'r run_state" where
  "change_gate s rgb_image =
     (let s1 = s\<lparr>img_list := img_list s @ [rgb_image]\<rparr> in
      if length (img_list s1) > 1 then
        (case load_global ''get_mse'' of
           Inl e \<Rightarrow> Inl (e, s1)
         | Inr _ \<Rightarrow>
             (case get_mse (img_list s1 ! 0) (img_list s1 ! 1) of
                Inl e \<Rightarrow> Inl (e, s1)
              | Inr m \<Rightarrow> Inr (s1\<lparr>mse := Some m, img_list := tl (img_list s1)\<rparr>)))
      else Inr s1)"

text \<open>
  Lines 85 to 88:
  \<^verbatim>\<open>
      if counter % fps_avg_frame_count == 0:
        end_time = time.time()
        fps = fps_avg_frame_count / (end_time - start_time)
        start_time = time.time()
  \<close>
  Times are reals. Python's float division raises ZeroDivisionError on a zero divisor.
\<close>

definition fps_avg_frame_count :: int where
  "fps_avg_frame_count = 10"

definition fps_refresh :: "'r run_state \<Rightarrow> cycle_input \<Rightarrow> (error \<times> 'r run_state) + 'r run_state" where
  "fps_refresh s inp =
     (if counter s mod fps_avg_frame_count = 0 then
        (case load_global ''time'' of
           Inl e \<Rightarrow> Inl (e, s)
         | Inr _ \<Rightarrow>
             (let end_time = clock_end inp in
              if end_time - start_time s = 0 then Inl (ZeroDivisionError, s)
              else Inr (s\<lparr>fps := real_of_int fps_avg_frame_count / (end_time - start_time s),
                          start_time := clock_start inp\<rparr>)))
      else Inr s)"

text \<open>
  Lines 77 to 100: \<^verbatim>\<open>if mse!=0:\<close> reads the local \<^verbatim>\<open>mse\<close> (UnboundLocalError when it was
  never assigned), then detection, the fps block and \<^verbatim>\<open>utils.print_data\<close>.
  \<^verbatim>\<open>nan != 0\<close> and \<^verbatim>\<open>inf != 0\<close> are true. The detector is an opaque function of the
  input tensor and is taken to return.
\<close>

definition detect_stage ::
  "(ndarray \<Rightarrow> 'r) \<Rightarrow> 'r run_state \<Rightarrow> ndarray \<Rightarrow> cycle_input \<Rightarrow> (error \<times> 'r run_state) + 'r run_state" where
  "detect_stage detector s input_tensor inp =
     (case mse s of
        None \<Rightarrow> Inl (UnboundLocalError, s)
      | Some m \<Rightarrow>
          if m \<noteq> Fl 0 then
            (let detection_result = detector input_tensor;
                 s1 = s\<lparr>sink := sink s @ [Detect input_tensor]\<rparr>
             in case fps_refresh s1 inp of
                  Inl e \<Rightarrow> Inl e
                | Inr s2 \<Rightarrow>
                    (case load_global ''utils'' of
                       Inl e \<Rightarrow> Inl (e, s2)
                     | Inr _ \<Rightarrow> Inr (s2\<lparr>sink := sink s2 @ [Print detection_result (fps s2)]\<rparr>)))
          else Inr s)"

text \<open>
  One iteration of \<^verbatim>\<open>while True:\<close> (lines 61 to 100). \<open>stride\<close> is the value read from the
  camera configuration on line 38; \<^verbatim>\<open>vision.TensorImage.create_from_array\<close> wraps the array.
\<close>

definition run_cycle ::
  "(ndarray \<Rightarrow> 'r) \<Rightarrow> nat \<Rightarrow> 'r run_state \<Rightarrow> cycle_input \<Rightarrow> (error \<times> 'r run_state) + 'r run_state" where
  "run_cycle detector stride s inp =
     (case reshape2 (take (stride * lowres_height) (buffer inp)) lowres_height stride of
        Inl e \<Rightarrow> Inl (e, s)
      | Inr image0 \<Rightarrow>
          (let s1 = s\<lparr>counter := counter s + 1\<rparr> in
           case load_global ''cv2'' of
             Inl e \<Rightarrow> Inl (e, s1)
           | Inr _ \<Rightarrow>
               (case cvtColor_GRAY2RGB image0 of
                  Inl e \<Rightarrow> Inl (e, s1)
                | Inr rgb_image \<Rightarrow>
                    (case load_global ''vision'' of
                       Inl e \<Rightarrow> Inl (e, s1)
                     | Inr _ \<Rightarrow>
                         (let input_tensor = rgb_image in
                          case change_gate s1 rgb_image of
                            Inl e \<Rightarrow> Inl e
                          | Inr s2 \<Rightarrow> detect_stage detector s2 input_tensor inp)))))"

text \<open>
  The loop has no exit: it ends only by an exception. Over the frames the camera delivers
  (a finite prefix of them), the loop runs one iteration per frame and stops at the first
  exception.
\<close>

fun run_loop ::
  "(ndarray \<Rightarrow> 'r) \<Rightarrow> nat \<Rightarrow> 'r run_state \<Rightarrow> cycle_input list \<Rightarrow> (error \<times> 'r run_state) + 'r run_state" where
  "run_loop detector stride s [] = Inr s"
| "run_loop detector stride s (inp # inps) =
     (case run_cycle detector stride s inp of
        Inl e \<Rightarrow> Inl e
      | Inr s' \<Rightarrow> run_loop detector stride s' inps)"

text \<open>The exception an outcome ends with, if any, and the locals it ends with.\<close>

fun raised :: "(error \<times> 'r run_state) + 'r run_state \<Rightarrow> error option" where
  "raised (Inl (e, s)) = Some e"
| "raised (Inr s) = None"

fun locals_of :: "(error \<times> 'r run_state) + 'r run_state \<Rightarrow> 'r run_state" where
  "locals_of (Inl (e, s)) = s"
| "locals_of (Inr s) = s"

section \<open>Concrete inputs\<close>

text \<open>
  A camera buffer of 240 bytes for a stride of 1, the frame the loop converts it to, a
  detector with an empty result, and the locals of \<^verbatim>\<open>run\<close> at the head of an iteration;
  a second buffer, a buffer too short for the reshape, and two square grey frames.
\<close>

abbreviation frame_in :: cycle_input where
  "frame_in \<equiv> \<lparr>buffer = replicate 240 7, clock_end = 2, clock_start = 3\<rparr>"

abbreviation frame_rgb :: ndarray where
  "frame_rgb \<equiv> \<lparr>shape = [240, 1, 3], pixels = concat (map (\<lambda>p. [p, p, p]) (replicate 240 7))\<rparr>"

abbreviation no_detector :: "ndarray \<Rightarrow> unit" where
  "no_detector \<equiv> (\<lambda>_. ())"

abbreviation at_gate :: "int \<Rightarrow> ndarray list \<Rightarrow> npfloat option \<Rightarrow> unit run_state" where
  "at_gate c h m \<equiv> \<lparr>counter = c, fps = 0, start_time = 0, img_list = h, mse = m, sink = []\<rparr>"

abbreviation other_in :: cycle_input where
  "other_in \<equiv> \<lparr>buffer = replicate 240 8, clock_end = 2, clock_start = 3\<rparr>"


abbreviation square2 :: ndarray where
  "square2 \<equiv> \<lparr>shape = [2, 2], pixels = [0, 0, 0, 0]\<rparr>"

abbreviation square3 :: ndarray where
  "square3 \<equiv> \<lparr>shape = [3, 3], pixels = [0, 0, 0, 0, 0, 0, 0, 0, 0]\<rparr>"

section \<open>Basic facts\<close>

lemma np_unbound: "load_global ''np'' = Inl NameError"
  by (simp add: load_global_def module_globals_def)

lemma cv2_bound: "load_global ''cv2'' = Inr ()"
  by (simp add: load_global_def module_globals_def)

lemma get_mse_bound: "load_global ''get_mse'' = Inr ()"
  by (simp add: load_global_def module_globals_def)

lemma vision_bound: "load_global ''vision'' = Inr ()"
  by (simp add: load_global_def module_globals_def)

lemma time_bound: "load_global ''time'' = Inr ()"
  by (simp add: load_global_def module_globals_def)

lemma utils_bound: "load_global ''utils'' = Inr ()"
  by (simp add: load_global_def module_globals_def)

lemma unpack2_three: "length sh = 3 \<Longrightarrow> unpack2 sh = Inl ValueError"
  by (cases sh rule: unpack2.cases) auto

lemma unpack2_two: "length sh = 2 \<Longrightarrow> unpack2 sh = Inr (sh ! 0, sh ! 1)"
  by (cases sh rule: unpack2.cases) auto

lemma get_mse_raises: "\<exists>e. get_mse img1 img2 = Inl e"
  by (simp add: get_mse_def np_unbound cv2_bound split: sum.splits prod.splits)

lemma get_mse_three_channels: "length (shape img1) = 3 \<Longrightarrow> get_mse img1 img2 = Inl ValueError"
  by (simp add: get_mse_def unpack2_three)

lemma get_mse_same_geometry:
  "length (shape img1) = 2 \<Longrightarrow> shape img2 = shape img1 \<Longrightarrow> get_mse img1 img2 = Inl NameError"
  by (simp add: get_mse_def unpack2_two cv2_bound cv2_subtract_def np_unbound)

section \<open>The stages of one iteration\<close>

lemma change_gate_empty:
  "img_list s = [] \<Longrightarrow> change_gate s f = Inr (s\<lparr>img_list := [f]\<rparr>)"
  by (simp add: change_gate_def)

lemma change_gate_nonempty:
  "img_list s \<noteq> [] \<Longrightarrow> \<exists>e. change_gate s f = Inl (e, s\<lparr>img_list := img_list s @ [f]\<rparr>)"
proof -
  assume ne: "img_list s \<noteq> []"
  obtain e where e: "get_mse ((img_list s @ [f]) ! 0) ((img_list s @ [f]) ! 1) = Inl e"
    using get_mse_raises by blast
  from ne have "length (img_list s @ [f]) > 1" by (cases "img_list s") auto
  with e show ?thesis
    by (simp add: change_gate_def Let_def get_mse_bound)
qed

lemma detect_stage_block:
  "mse s = Some (Fl 0) \<Longrightarrow> detect_stage d s t inp = Inr s"
  by (simp add: detect_stage_def)

lemma detect_stage_unbound:
  "mse s = None \<Longrightarrow> detect_stage d s t inp = Inl (UnboundLocalError, s)"
  by (simp add: detect_stage_def)

lemma fps_refresh_cases:
  "fps_refresh s inp =
     (if counter s mod 10 = 0 then
        (if clock_end inp = start_time s then Inl (ZeroDivisionError, s)
         else Inr (s\<lparr>fps := 10 / (clock_end inp - start_time s), start_time := clock_start inp\<rparr>))
      else Inr s)"
  by (simp add: fps_refresh_def fps_avg_frame_count_def time_bound Let_def)

lemma detect_stage_pass:
  "mse s = Some m \<Longrightarrow> m \<noteq> Fl 0 \<Longrightarrow>
   detect_stage d s t inp =
     (case fps_refresh (s\<lparr>sink := sink s @ [Detect t]\<rparr>) inp of
        Inl e \<Rightarrow> Inl e
      | Inr s2 \<Rightarrow> Inr (s2\<lparr>sink := sink s2 @ [Print (d t) (fps s2)]\<rparr>))"
  by (simp add: detect_stage_def Let_def utils_bound split: sum.splits)

lemma run_cycle_stages:
  "run_cycle d stride s inp =
     (case reshape2 (take (stride * lowres_height) (buffer inp)) lowres_height stride of
        Inl e \<Rightarrow> Inl (e, s)
      | Inr image0 \<Rightarrow>
          (case cvtColor_GRAY2RGB image0 of
             Inl e \<Rightarrow> Inl (e, s\<lparr>counter := counter s + 1\<rparr>)
           | Inr rgb_image \<Rightarrow>
               (case change_gate (s\<lparr>counter := counter s + 1\<rparr>) rgb_image of
                  Inl e \<Rightarrow> Inl e
                | Inr s2 \<Rightarrow> detect_stage d s2 rgb_image inp)))"
  by (simp add: run_cycle_def Let_def cv2_bound vision_bound split: sum.splits)

lemma cvtColor_shape:
  "cvtColor_GRAY2RGB im = Inr rgb \<Longrightarrow> shape im = [h, w] \<Longrightarrow> shape rgb = [h, w, 3]"
  by (auto simp: cvtColor_GRAY2RGB_def split: if_splits)

lemma run_cycle_Inr:
  assumes "run_cycle d stride s inp = Inr s'"
  shows "img_list s = [] \<and> (\<exists>f. shape f = [lowres_height, stride, 3] \<and> img_list s' = [f] \<and>
     detect_stage d (s\<lparr>counter := counter s + 1, img_list := [f]\<rparr>) f inp = Inr s')"
proof -
  from assms obtain im where im: "reshape2 (take (stride * lowres_height) (buffer inp)) lowres_height stride = Inr im"
    by (auto simp: run_cycle_stages split: sum.splits)
  with assms obtain rgb where rgb: "cvtColor_GRAY2RGB im = Inr rgb"
    by (auto simp: run_cycle_stages split: sum.splits)
  with assms im obtain s2 where s2: "change_gate (s\<lparr>counter := counter s + 1\<rparr>) rgb = Inr s2"
    and ds: "detect_stage d s2 rgb inp = Inr s'"
    by (auto simp: run_cycle_stages split: sum.splits)
  have e: "img_list s = []"
  proof (rule ccontr)
    assume "img_list s \<noteq> []"
    then have "img_list (s\<lparr>counter := counter s + 1\<rparr>) \<noteq> []" by simp
    from change_gate_nonempty [OF this, of rgb] s2 show False by auto
  qed
  then have s2': "s2 = s\<lparr>counter := counter s + 1, img_list := [rgb]\<rparr>"
    using s2 by (simp add: change_gate_empty)
  from im have "shape im = [lowres_height, stride]"
    by (auto simp: reshape2_def split: if_splits)
  with rgb have sh: "shape rgb = [lowres_height, stride, 3]" by (rule cvtColor_shape)
  have "img_list s' = [rgb]"
    using ds s2' by (auto simp: detect_stage_def fps_refresh_cases Let_def utils_bound split: option.splits if_splits sum.splits)
  with e sh ds s2' show ?thesis by auto
qed

lemma fps_refresh_history: "img_list (locals_of (fps_refresh s inp)) = img_list s"
  by (simp add: fps_refresh_cases)

lemma detect_stage_history: "img_list (locals_of (detect_stage d s t inp)) = img_list s"
  by (cases "mse s") (auto simp: detect_stage_def fps_refresh_cases Let_def utils_bound)

lemma run_cycle_history:
  "img_list (locals_of (run_cycle d stride s inp)) = img_list s \<or>
   (\<exists>f. img_list (locals_of (run_cycle d stride s inp)) = img_list s @ [f])"
proof (cases "reshape2 (take (stride * lowres_height) (buffer inp)) lowres_height stride")
  case (Inl e)
  then show ?thesis by (simp add: run_cycle_stages)
next
  case im: (Inr im)
  show ?thesis
  proof (cases "cvtColor_GRAY2RGB im")
    case (Inl e)
    with im show ?thesis by (simp add: run_cycle_stages)
  next
    case rgb: (Inr rgb)
    show ?thesis
    proof (cases "img_list s = []")
      case True
      with im rgb show ?thesis
        by (simp add: run_cycle_stages change_gate_empty detect_stage_history)
    next
      case False
      then have "img_list (s\<lparr>counter := counter s + 1\<rparr>) \<noteq> []" by simp
      from change_gate_nonempty [OF this, of rgb] im rgb show ?thesis
        by (auto simp: run_cycle_stages)
    qed
  qed
qed

lemma run_cycle_nonempty_raises:
  "img_list s \<noteq> [] \<Longrightarrow> raised (run_cycle d stride s inp) \<noteq> None"
  using run_cycle_Inr [of d stride s inp] by (cases "run_cycle d stride s inp") auto

lemma run_cycle_bound:
  assumes "length (img_list s) \<le> 1"
  shows "length (img_list (locals_of (run_cycle d stride s inp))) \<le> 2"
  using assms run_cycle_history [of d stride s inp] by auto

lemma run_loop_bound:
  "length (img_list s) \<le> 1 \<Longrightarrow> length (img_list (locals_of (run_loop d stride s inps))) \<le> 2"
proof (induction inps arbitrary: s)
  case Nil
  then show ?case by simp
next
  case (Cons inp inps)
  show ?case
  proof (cases "run_cycle d stride s inp")
    case (Inl es)
    with run_cycle_bound [OF Cons.prems, of d stride inp] show ?thesis by simp
  next
    case (Inr s')
    from run_cycle_Inr [OF Inr] have "length (img_list s') \<le> 1" by auto
    from Cons.IH [OF this] Inr show ?thesis by simp
  qed
qed

lemma first_cycle:
  "raised (run_cycle d stride (init_state t0) inp) \<noteq> None"
  using run_cycle_Inr [of d stride "init_state t0" inp]
  by (cases "run_cycle d stride (init_state t0) inp") (auto simp: init_state_def detect_stage_def)

lemma first_cycle_unbound:
  "0 < stride \<Longrightarrow> stride * lowres_height \<le> length (buffer inp) \<Longrightarrow>
   raised (run_cycle d stride (init_state t0) inp) = Some UnboundLocalError"
  by (simp add: run_cycle_stages reshape2_def cvtColor_GRAY2RGB_def lowres_height_def
      change_gate_empty init_state_def detect_stage_def mult.commute)

lemma run_loop_first:
  "raised (run_loop d stride (init_state t0) (inp # inps)) \<noteq> None"
  using first_cycle [of d stride t0 inp]
  by (cases "run_cycle d stride (init_state t0) inp") auto

lemma cyc_block:
  "run_cycle no_detector 1 (at_gate 0 [] (Some (Fl 0))) frame_in =
     Inr \<lparr>counter = 1, fps = 0, start_time = 0, img_list = [frame_rgb], mse = Some (Fl 0),
          sink = []\<rparr>"
  by (simp add: run_cycle_stages reshape2_def lowres_height_def cvtColor_GRAY2RGB_def
      change_gate_empty detect_stage_block)

subsection \<open>The arithmetic of lines 146 to 148, had it been reached\<close>

text \<open>
  The saturating difference is 0 wherever the first frame is not brighter than the second,
  and a square of 256 or more wraps in uint8: two frames that differ can sum to 0, and the
  sum depends on the order of the two frames.
\<close>

lemma saturate_sub_zero: "saturate_sub a b = 0 \<longleftrightarrow> a \<le> b"
  by (auto simp: saturate_sub_def)

lemma darker_frame_scores_zero:
  "cv2_subtract \<lparr>shape = [1, 1], pixels = [0]\<rparr> \<lparr>shape = [1, 1], pixels = [1]\<rparr>
     = Inr \<lparr>shape = [1, 1], pixels = [0]\<rparr> \<and>
   np_sum (np_square \<lparr>shape = [1, 1], pixels = [0]\<rparr>) = 0 \<and>
   cv2_subtract \<lparr>shape = [1, 1], pixels = [1]\<rparr> \<lparr>shape = [1, 1], pixels = [0]\<rparr>
     = Inr \<lparr>shape = [1, 1], pixels = [1]\<rparr> \<and>
   np_sum (np_square \<lparr>shape = [1, 1], pixels = [1]\<rparr>) = 1"
  by (simp add: cv2_subtract_def saturate_sub_def np_sum_def np_square_def)

lemma square_wraps_in_uint8:
  "cv2_subtract \<lparr>shape = [1, 1], pixels = [16]\<rparr> \<lparr>shape = [1, 1], pixels = [0]\<rparr>
     = Inr \<lparr>shape = [1, 1], pixels = [16]\<rparr> \<and>
   np_sum (np_square \<lparr>shape = [1, 1], pixels = [16]\<rparr>) = 0"
  by (simp add: cv2_subtract_def saturate_sub_def np_sum_def np_square_def)

subsection \<open>Iterations at concrete inputs\<close>

lemma cyc_second_frame:
  "run_cycle no_detector 1 (at_gate 1 [frame_rgb] None) inp =
     (if length (buffer inp) < 240 then Inl (ValueError, at_gate 1 [frame_rgb] None)
      else Inl (ValueError, at_gate 2 [frame_rgb,
         \<lparr>shape = [240, 1, 3], pixels = concat (map (\<lambda>p. [p, p, p]) (take 240 (buffer inp)))\<rparr>] None))"
  by (simp add: run_cycle_stages reshape2_def lowres_height_def cvtColor_GRAY2RGB_def
      change_gate_def get_mse_bound get_mse_def)

lemma cyc_first_frame:
  "run_cycle no_detector 1 (init_state 0) inp =
     (if length (buffer inp) < 240 then Inl (ValueError, at_gate 0 [] None)
      else Inl (UnboundLocalError, at_gate 1
         [\<lparr>shape = [240, 1, 3], pixels = concat (map (\<lambda>p. [p, p, p]) (take 240 (buffer inp)))\<rparr>] None))"
  by (simp add: run_cycle_stages reshape2_def lowres_height_def cvtColor_GRAY2RGB_def
      change_gate_empty init_state_def detect_stage_unbound)

subsection \<open>Every iteration, and the loop from its initial state\<close>







lemma first_cycle_locals:
  "sink (locals_of (run_cycle d stride (init_state t0) inp)) = [] \<and>
   fps (locals_of (run_cycle d stride (init_state t0) inp)) = 0 \<and>
   start_time (locals_of (run_cycle d stride (init_state t0) inp)) = t0 \<and>
   mse (locals_of (run_cycle d stride (init_state t0) inp)) = None \<and>
   length (img_list (locals_of (run_cycle d stride (init_state t0) inp))) \<le> 1 \<and>
   (\<forall>f \<in> set (img_list (locals_of (run_cycle d stride (init_state t0) inp))).
      shape f = [lowres_height, stride, 3])"
proof (cases "reshape2 (take (stride * lowres_height) (buffer inp)) lowres_height stride")
  case (Inl e)
  then show ?thesis by (simp add: run_cycle_stages init_state_def)
next
  case im: (Inr im)
  then have sh: "shape im = [lowres_height, stride]"
    by (auto simp: reshape2_def split: if_splits)
  show ?thesis
  proof (cases "cvtColor_GRAY2RGB im")
    case (Inl e)
    with im show ?thesis by (simp add: run_cycle_stages init_state_def)
  next
    case rgb: (Inr rgb)
    from cvtColor_shape [OF rgb sh] have "shape rgb = [lowres_height, stride, 3]" .
    with im rgb show ?thesis
      by (simp add: run_cycle_stages init_state_def change_gate_empty detect_stage_unbound)
  qed
qed

lemma run_loop_init:
  "run_loop d stride (init_state t0) inps =
     (case inps of [] \<Rightarrow> Inr (init_state t0)
      | inp # _ \<Rightarrow> run_cycle d stride (init_state t0) inp)"
proof (cases inps)
  case Nil
  then show ?thesis by simp
next
  case (Cons inp rest)
  from first_cycle [of d stride t0 inp] obtain es where
    "run_cycle d stride (init_state t0) inp = Inl es"
    by (cases "run_cycle d stride (init_state t0) inp") auto
  with Cons show ?thesis by simp
qed

lemma run_loop_init_locals:
  "sink (locals_of (run_loop d stride (init_state t0) inps)) = [] \<and>
   fps (locals_of (run_loop d stride (init_state t0) inps)) = 0 \<and>
   start_time (locals_of (run_loop d stride (init_state t0) inps)) = t0 \<and>
   length (img_list (locals_of (run_loop d stride (init_state t0) inps))) \<le> 1 \<and>
   (\<forall>f \<in> set (img_list (locals_of (run_loop d stride (init_state t0) inps))).
      shape f = [lowres_height, stride, 3])"
proof (cases inps)
  case Nil
  then show ?thesis by (simp add: init_state_def)
next
  case (Cons inp rest)
  have "run_loop d stride (init_state t0) inps = run_cycle d stride (init_state t0) inp"
    unfolding run_loop_init Cons by simp
  with first_cycle_locals [of d stride t0 inp] show ?thesis by simp
qed


lemma get_mse_mismatch:
  "shape a = [h1, w1] \<Longrightarrow> shape a \<noteq> shape b \<Longrightarrow> get_mse a b = Inl Cv2Error"
  by (simp add: get_mse_def cv2_bound cv2_subtract_def)

section \<open>Claims\<close>

text \<open>
  C1 (two consecutive frames of the same geometry that differ in a pixel give a score above
  0 and the detector runs). At the 1 by 1 frames with pixel 0 and pixel 1, \<^verbatim>\<open>get_mse\<close>
  raises NameError and returns no score. In the loop, with one converted frame in the history
  and a camera buffer that differs from it in every pixel, the iteration raises ValueError
  (the frames have three shape components) and the detector is not called.
\<close>

theorem C1_differing_frames_raise:
  "get_mse \<lparr>shape = [1, 1], pixels = [0]\<rparr> \<lparr>shape = [1, 1], pixels = [1]\<rparr> = Inl NameError \<and>
   raised (run_cycle no_detector 1 (at_gate 1 [frame_rgb] None) other_in) = Some ValueError \<and>
   sink (locals_of (run_cycle no_detector 1 (at_gate 1 [frame_rgb] None) other_in)) = []"
  using cyc_second_frame [of other_in] by (simp add: get_mse_same_geometry)

text \<open>
  C2 (the same frame observed twice gives score 0 and the detector is skipped). The loop
  started on two identical camera buffers raises UnboundLocalError while handling the first.
  \<^verbatim>\<open>get_mse\<close> on the converted frame and itself raises ValueError, and so does the iteration
  that has the frame in its history and receives it again: no score 0 is ever produced.
\<close>

theorem C2_identical_frames_raise:
  "raised (run_loop no_detector 1 (init_state 0) [frame_in, frame_in]) = Some UnboundLocalError \<and>
   get_mse frame_rgb frame_rgb = Inl ValueError \<and>
   raised (run_cycle no_detector 1 (at_gate 1 [frame_rgb] None) frame_in) = Some ValueError"
  using cyc_second_frame [of frame_in] cyc_first_frame [of frame_in]
  by (simp add: get_mse_three_channels)




text \<open>
  C4 (the score is the sum of the squared pixel differences divided by h times w). At the
  1 by 2 frames with pixels 3, 0 and 0, 0 the claim gives 9 / 2; \<^verbatim>\<open>get_mse\<close> raises
  NameError and returns no score.
\<close>

theorem C4_no_score_returned:
  "get_mse \<lparr>shape = [1, 2], pixels = [3, 0]\<rparr> \<lparr>shape = [1, 2], pixels = [0, 0]\<rparr> = Inl NameError"
  by (simp add: get_mse_same_geometry)

text \<open>
  C5 (the score is symmetric in its two arguments). At the 1 by 1 frames with pixel 1 and
  pixel 0, \<^verbatim>\<open>get_mse\<close> raises NameError in both orders: there is no score to compare.
\<close>

theorem C5_no_score_either_order:
  "get_mse \<lparr>shape = [1, 1], pixels = [1]\<rparr> \<lparr>shape = [1, 1], pixels = [0]\<rparr> = Inl NameError \<and>
   get_mse \<lparr>shape = [1, 1], pixels = [0]\<rparr> \<lparr>shape = [1, 1], pixels = [1]\<rparr> = Inl NameError"
  by (simp add: get_mse_same_geometry)

text \<open>
  C6 (on the first frame the cycle behaves as BLOCK and the loop goes on to the next
  capture). The first iteration does not call the detector, but it raises
  UnboundLocalError at \<^verbatim>\<open>if mse!=0:\<close>, and the loop given two frames ends with that
  exception: the second frame is never handled.
\<close>

theorem C6_first_frame_raises:
  "raised (run_cycle no_detector 1 (init_state 0) frame_in) = Some UnboundLocalError \<and>
   sink (locals_of (run_cycle no_detector 1 (init_state 0) frame_in)) = [] \<and>
   raised (run_loop no_detector 1 (init_state 0) [frame_in, other_in]) = Some UnboundLocalError"
  using cyc_first_frame [of frame_in] by simp





text \<open>
  C9 as stated fails. \<^verbatim>\<open>get_mse\<close> on a 2 by 2 frame and a 3 by 3 frame raises
  \<^verbatim>\<open>cv2.error\<close>, from \<^verbatim>\<open>cv2.subtract\<close>; the module defines no InvalidInputError.
\<close>

theorem C9_mismatch_raises_cv2_error:
  "shape square2 \<noteq> shape square3 \<and> get_mse square2 square3 = Inl Cv2Error"
  by (simp add: get_mse_mismatch)

text \<open>
  C9, amended. For two two-dimensional frames of different geometry, each with at least two
  rows and two columns, \<^verbatim>\<open>get_mse\<close> raises \<^verbatim>\<open>cv2.error\<close>. Every frame the loop puts
  into the history has the geometry \<open>[240, stride, 3]\<close>, so \<^verbatim>\<open>run\<close> feeds no mismatched
  pair to the gate.
\<close>

theorem C9_no_geometry_check:
  "(shape a = [h1, w1] \<and> shape b = [h2, w2] \<and> shape a \<noteq> shape b \<and>
    2 \<le> h1 \<and> 2 \<le> w1 \<and> 2 \<le> h2 \<and> 2 \<le> w2 \<longrightarrow> get_mse a b = Inl Cv2Error) \<and>
   (\<forall>f \<in> set (img_list (locals_of (run_loop d stride (init_state t0) inps))).
      shape f = [240, stride, 3])"
  using get_mse_mismatch [of a h1 w1 b] run_loop_init_locals [of d stride t0 inps]
  by (auto simp: lowres_height_def)

text \<open>C9, amended, at the two square frames and at a run of one frame.\<close>

theorem C9_geometry_witness:
  "shape square2 = [2, 2] \<and> shape square3 = [3, 3] \<and> shape square2 \<noteq> shape square3 \<and>
   get_mse square2 square3 = Inl Cv2Error \<and>
   img_list (locals_of (run_loop no_detector 1 (init_state 0) [frame_in])) = [frame_rgb] \<and>
   shape frame_rgb = [240, 1, 3]"
  using C9_no_geometry_check [of square2 2 2 square3 3 3 no_detector 1 0 "[frame_in]"]
    cyc_first_frame [of frame_in]
  by simp

text \<open>
  C10. For every pair of input images, \<^verbatim>\<open>get_mse\<close> raises an exception instead of returning
  a score. When the shape of the first image has three components, the unpacking
  \<^verbatim>\<open>h, w = img1.shape\<close> raises ValueError; for two images of the same two-dimensional
  geometry the call reaches \<^verbatim>\<open>np.sum\<close> and raises NameError, since \<^verbatim>\<open>np\<close> is not bound.
  The frame an iteration stores in the history has the three-component shape
  \<open>[240, stride, 3]\<close>, and no iteration that starts with a frame in the history (so that
  the history reaches two frames) completes normally.
\<close>

theorem C10_get_mse_always_raises:
  "(\<exists>e. get_mse img1 img2 = Inl e) \<and>
   (length (shape img1) = 3 \<longrightarrow> get_mse img1 img2 = Inl ValueError) \<and>
   (length (shape img1) = 2 \<and> shape img2 = shape img1 \<longrightarrow> get_mse img1 img2 = Inl NameError) \<and>
   (run_cycle d stride s0 inp = Inr s' \<longrightarrow>
      (\<exists>f. img_list s' = [f] \<and> shape f = [240, stride, 3])) \<and>
   (img_list s \<noteq> [] \<longrightarrow> raised (run_cycle d stride s inp) \<noteq> None)"
proof -
  have "run_cycle d stride s0 inp = Inr s' \<longrightarrow>
      (\<exists>f. img_list s' = [f] \<and> shape f = [240, stride, 3])"
    using run_cycle_Inr [of d stride s0 inp s'] by (auto simp: lowres_height_def)
  then show ?thesis
    using get_mse_raises [of img1 img2] get_mse_three_channels [of img1 img2]
      get_mse_same_geometry [of img1 img2] run_cycle_nonempty_raises [of s d stride inp]
    by blast
qed

text \<open>C10 at concrete inputs.\<close>

theorem C10_witness:
  "length (shape \<lparr>shape = [1, 1, 3], pixels = [0, 0, 0]\<rparr>) = 3 \<and>
   get_mse \<lparr>shape = [1, 1, 3], pixels = [0, 0, 0]\<rparr> \<lparr>shape = [1, 1, 3], pixels = [0, 0, 0]\<rparr>
     = Inl ValueError \<and>
   length (shape \<lparr>shape = [1, 1], pixels = [0]\<rparr>) = 2 \<and>
   shape \<lparr>shape = [1, 1], pixels = [1]\<rparr> = shape \<lparr>shape = [1, 1], pixels = [0]\<rparr> \<and>
   get_mse \<lparr>shape = [1, 1], pixels = [0]\<rparr> \<lparr>shape = [1, 1], pixels = [1]\<rparr> = Inl NameError \<and>
   run_cycle no_detector 1 (at_gate 0 [] (Some (Fl 0))) frame_in =
     Inr \<lparr>counter = 1, fps = 0, start_time = 0, img_list = [frame_rgb], mse = Some (Fl 0),
          sink = []\<rparr> \<and>
   img_list (at_gate 1 [frame_rgb] (Some (Fl 0))) \<noteq> [] \<and>
   raised (run_cycle no_detector 1 (at_gate 1 [frame_rgb] (Some (Fl 0))) frame_in) \<noteq> None"
  using C10_get_mse_always_raises [of "\<lparr>shape = [1, 1, 3], pixels = [0, 0, 0]\<rparr>"
      "\<lparr>shape = [1, 1, 3], pixels = [0, 0, 0]\<rparr>" no_detector 1
      "at_gate 0 [] (Some (Fl 0))" frame_in
      "\<lparr>counter = 1, fps = 0, start_time = 0, img_list = [frame_rgb], mse = Some (Fl 0), sink = []\<rparr>"
      "at_gate 1 [frame_rgb] (Some (Fl 0))"]
    C10_get_mse_always_raises [of "\<lparr>shape = [1, 1], pixels = [0]\<rparr>"
      "\<lparr>shape = [1, 1], pixels = [1]\<rparr>" no_detector 1
      "at_gate 0 [] (Some (Fl 0))" frame_in
      "\<lparr>counter = 1, fps = 0, start_time = 0, img_list = [frame_rgb], mse = Some (Fl 0), sink = []\<rparr>"
      "at_gate 1 [frame_rgb] (Some (Fl 0))"]
    cyc_block
  by simp

end
